theory Spec2Isabelle
  imports Main "HOL-Library.Multiset" "HOL-Library.Char_ord" "HOL-Library.List_Lexorder"
begin

section \<open>JavaScript values used by the embedding\<close>

text \<open>
  JavaScript numbers are modelled as unbounded naturals or integers (exact as long as the
  values stay below \<open>2^53\<close>). A number that may be \<open>NaN\<close> is an option, with
  \<open>None\<close> for \<open>NaN\<close>; an array element that may be \<open>undefined\<close> is an
  option, with \<open>None\<close> for \<open>undefined\<close>. Arithmetic with \<open>undefined\<close>
  or \<open>NaN\<close> gives \<open>NaN\<close>.
\<close>

definition js_get :: "'a option list \<Rightarrow> nat \<Rightarrow> 'a option" where
  \<comment> \<open>\<open>xs[i]\<close> on an array whose elements may be undefined: reading past the end is undefined\<close>
  "js_get xs i = (if i < length xs then xs ! i else None)"

definition js_read :: "'a list \<Rightarrow> nat \<Rightarrow> 'a option" where
  \<comment> \<open>\<open>xs[i]\<close> on an array of defined elements\<close>
  "js_read xs i = (if i < length xs then Some (xs ! i) else None)"

definition js_times :: "nat option \<Rightarrow> nat \<Rightarrow> nat option" where
  "js_times a m = (case a of None \<Rightarrow> None | Some x \<Rightarrow> Some (x * m))"

definition js_plus :: "nat option \<Rightarrow> nat option \<Rightarrow> nat option" where
  "js_plus a b = (case a of None \<Rightarrow> None | Some x \<Rightarrow> (case b of None \<Rightarrow> None | Some y \<Rightarrow> Some (x + y)))"

fun indexOf :: "'a list \<Rightarrow> 'a \<Rightarrow> nat option" where
  \<comment> \<open>\<open>Array.prototype.indexOf\<close>: the first position of the element; \<open>None\<close> is \<open>-1\<close>\<close>
  "indexOf [] x = None"
| "indexOf (y # ys) x = (if y = x then Some 0 else map_option Suc (indexOf ys x))"


section \<open>Cube addressing (table display)\<close>

text \<open>
  \<open>currentData\<close> is the fetched JSON-stat cube: \<open>id\<close> (dimension order),
  \<open>size\<close> (category count per dimension) and the flat \<open>value\<close> array.
  \<open>AppState.tableLayout\<close> is a pair of dimension-code lists. A header combination
  (built by \<open>buildDimensionCombinations\<close>) carries the codes and the category
  indices of the dimensions of one axis.
\<close>

record 'v jsonstat =
  data_id :: "string list"
  data_size :: "nat list"
  data_value :: "'v list"

record layout =
  rows :: "string list"
  columns :: "string list"

record header =
  codes :: "string list"
  indices :: "nat list"

datatype 'v lookup = NoData | Undef | Elem 'v

text \<open>
  \<open>calculateFlatIndex(indices, sizes)\<close>: the loop
  \<open>for (let i = sizes.length - 1; i >= 0; i--)\<close>. The third argument of the loop
  function is \<open>i + 1\<close>, the number of iterations still to run.
\<close>

fun flatIndexLoop :: "nat option list \<Rightarrow> nat list \<Rightarrow> nat \<Rightarrow> nat option \<Rightarrow> nat \<Rightarrow> nat option" where
  "flatIndexLoop idxs sizes 0 flatIndex multiplier = flatIndex"
| "flatIndexLoop idxs sizes (Suc i) flatIndex multiplier =
     flatIndexLoop idxs sizes i
       (js_plus flatIndex (js_times (js_get idxs i) multiplier))
       (multiplier * sizes ! i)"

definition calculateFlatIndex :: "nat option list \<Rightarrow> nat list \<Rightarrow> nat option" where
  "calculateFlatIndex idxs sizes = flatIndexLoop idxs sizes (length sizes) (Some 0) 1"

text \<open>
  The \<open>data.id.forEach\<close> loop of \<open>getDataValue\<close>, which builds
  \<open>fullIndices\<close>: the index comes from the row header when the dimension is a row
  dimension, from the column header when it is a column dimension, and is 0 otherwise.
\<close>

definition dimIndex :: "layout \<Rightarrow> header \<Rightarrow> header \<Rightarrow> string \<Rightarrow> nat option" where
  "dimIndex lay rowHeader colHeader dimCode =
     (case indexOf (rows lay) dimCode of
        Some rowIndex \<Rightarrow> js_read (indices rowHeader) rowIndex
      | None \<Rightarrow>
         (case indexOf (columns lay) dimCode of
            Some colIndex \<Rightarrow> js_read (indices colHeader) colIndex
          | None \<Rightarrow> Some 0))"

definition fullIndices :: "'v jsonstat \<Rightarrow> layout \<Rightarrow> header \<Rightarrow> header \<Rightarrow> nat option list" where
  "fullIndices d lay rowHeader colHeader = map (dimIndex lay rowHeader colHeader) (data_id d)"

definition getDataValue :: "'v jsonstat option \<Rightarrow> layout \<Rightarrow> header \<Rightarrow> header \<Rightarrow> 'v lookup" where
  "getDataValue currentData lay rowHeader colHeader =
     (case currentData of
        None \<Rightarrow> NoData
      | Some d \<Rightarrow>
         (case calculateFlatIndex (fullIndices d lay rowHeader colHeader) (data_size d) of
            None \<Rightarrow> Undef
          | Some flatIndex \<Rightarrow>
             (case js_read (data_value d) flatIndex of None \<Rightarrow> Undef | Some v \<Rightarrow> Elem v)))"

text \<open>
  The addressing rule in the words of the specification: the stride of the last dimension
  is 1, the stride of an earlier dimension is the stride of the next one times the size
  of the next one, and the offset of an index vector is the sum of index times stride.
\<close>

function spec_stride :: "nat list \<Rightarrow> nat \<Rightarrow> nat" where
  "spec_stride sizes i =
     (if Suc i < length sizes then spec_stride sizes (Suc i) * sizes ! Suc i else 1)"
  by pat_completeness auto
termination
  by (relation "measure (\<lambda>(sizes, i). length sizes - i)") auto

declare spec_stride.simps [simp del]

definition spec_offset :: "nat list \<Rightarrow> nat list \<Rightarrow> nat" where
  "spec_offset idx sizes = (\<Sum>i < length sizes. idx ! i * spec_stride sizes i)"


section \<open>Variable selection: page state\<close>

text \<open>
  The variable-selection view keeps its state in the page: one card per dimension, with
  the dimension code, the \<open>data-elimination\<close> flag (the strings written there
  are \<open>true\<close> and \<open>false\<close>; the field below is the comparison with
  \<open>true\<close>), the value list with its \<open>data-mode\<close> and its items, and
  the text of the top-n input when the card has one. An item carries its
  \<open>data-code\<close>, whether it has the class \<open>selected\<close>, and what
  \<open>JSON.parse\<close> makes of its \<open>data-valuemap\<close> attribute.
  \<open>JSON.parse\<close> is a builtin: its outcome is part of the state.
\<close>

datatype valuemap_attr =
    NoValueMap            \<comment> \<open>the attribute is absent or empty\<close>
  | InvalidJson           \<comment> \<open>\<open>JSON.parse\<close> throws\<close>
  | NotAnArray            \<comment> \<open>it parses to something that is not an array\<close>
  | ValueMap "string list"

record item =
  item_code :: string
  selected :: bool
  valuemap :: valuemap_attr

record value_list =
  mode :: string
  items :: "item list"

record variable_card =
  dimension :: string
  elimination :: bool
  container :: "value_list option"
  topNInput :: "string option"

text \<open>
  An entry of \<open>activeCodelists\<close>. The \<open>Set\<close> of original codes is a
  list without duplicates in insertion order; its \<open>size\<close> is the length.
\<close>

record codelist_entry =
  entry_code :: string
  entry_label :: string
  valueMap :: "string list"

record codelist_info =
  codelistId :: string
  cl_elimination :: bool
  isAggregated :: bool
  cl_values :: "codelist_entry list"
  originalCodes :: "string list"

text \<open>
  The table metadata: \<open>id\<close>, and per dimension the entries of
  \<open>category.label\<close>, the map \<open>category.index\<close> (absent when
  \<open>category?.index\<close> is) and \<open>extension?.elimination === true\<close>.
\<close>

record dimension_meta =
  category_label :: "(string \<times> string) list"
  category_index :: "(string \<Rightarrow> int option) option"
  ext_elimination :: bool

record table_metadata =
  meta_id :: "string list"
  meta_dimension :: "string \<Rightarrow> dimension_meta option"

text \<open>
  The messages given to \<open>showError\<close>, and the exception a property read on
  \<open>null\<close> or \<open>undefined\<close> throws. \<open>showError\<close> replaces the
  content of the error display when the page has one; the timer that hides the message
  later is outside the model.
\<close>

datatype ui_message =
    CodelistLoadFailed     \<comment> \<open>Kunne ikke laste kodeliste\<close>
  | AllDimensionsRequired  \<comment> \<open>all dimensions must be in the rows or in the columns\<close>
  | NoDimension            \<comment> \<open>the table must have at least one dimension\<close>

datatype js_error = TypeError

record page =
  tableMetadata :: "table_metadata option"
  activeCodelists :: "string \<Rightarrow> codelist_info option"
  activeCodelistIds :: "string \<Rightarrow> string option"
  dimensionValueOrder :: "string \<Rightarrow> string list option"
  cards :: "variable_card list"
  cellCountEl :: bool
  errorDiv :: bool
  errorDisplay :: "ui_message option"

text \<open>A value of the query object: a string or an array of codes.\<close>

datatype query_value = Str string | Arr "string list"


section \<open>Strings\<close>

text \<open>
  Strings are ASCII. \<open>toLowerCase\<close> maps the letters A to Z;
  \<open>String.prototype.includes\<close> (here \<open>str_includes\<close>) is the substring test; \<open>parseInt(s, 10)\<close> skips white
  space, reads a sign and the longest run of decimal digits, and is \<open>NaN\<close>
  (here \<open>None\<close>) when there is no digit.
\<close>

definition lowerChar :: "char \<Rightarrow> char" where
  "lowerChar c =
     (case map_of (zip ''ABCDEFGHIJKLMNOPQRSTUVWXYZ'' ''abcdefghijklmnopqrstuvwxyz'') c of
        Some l \<Rightarrow> l | None \<Rightarrow> c)"

definition toLowerCase :: "string \<Rightarrow> string" where
  "toLowerCase s = map lowerChar s"

fun startsWith :: "string \<Rightarrow> string \<Rightarrow> bool" where
  "startsWith s [] = True"
| "startsWith [] (b # t) = False"
| "startsWith (a # s) (b # t) = (a = b \<and> startsWith s t)"

fun str_includes :: "string \<Rightarrow> string \<Rightarrow> bool" where
  "str_includes [] t = (t = [])"
| "str_includes (a # s) t = (startsWith (a # s) t \<or> str_includes s t)"

definition isTimeDim :: "string \<Rightarrow> bool" where
  "isTimeDim dimCode = (dimCode = ''Tid'' \<or> str_includes (toLowerCase dimCode) ''tid'')"

definition isWhiteSpace :: "char \<Rightarrow> bool" where
  "isWhiteSpace c = (c \<in> set [CHR '' '', CHR 0x09, CHR 0x0A, CHR 0x0B, CHR 0x0C, CHR 0x0D])"

definition digitValue :: "char \<Rightarrow> nat option" where
  "digitValue c = map_of (zip ''0123456789'' [0, 1, 2, 3, 4, 5, 6, 7, 8, 9]) c"

definition isDigit :: "char \<Rightarrow> bool" where
  "isDigit c = (digitValue c \<noteq> None)"

definition digitsValue :: "string \<Rightarrow> nat" where
  "digitsValue ds = foldl (\<lambda>a c. 10 * a + the (digitValue c)) 0 ds"

definition parseInt :: "string \<Rightarrow> int option" where
  "parseInt s =
     (let t = dropWhile isWhiteSpace s;
          neg = (case t of [] \<Rightarrow> False | c # r \<Rightarrow> c = CHR ''-'');
          u = (case t of [] \<Rightarrow> t | c # r \<Rightarrow> if c = CHR ''-'' \<or> c = CHR ''+'' then r else t);
          ds = takeWhile isDigit u
      in if ds = [] then None
         else Some ((if neg then - 1 else 1) * int (digitsValue ds)))"

definition orDefault :: "string option \<Rightarrow> string \<Rightarrow> string" where
  \<comment> \<open>\<open>input?.value || dflt\<close>: the default when the input is absent or empty\<close>
  "orDefault v dflt = (case v of None \<Rightarrow> dflt | Some t \<Rightarrow> if t = [] then dflt else t)"


section \<open>Query construction and validation\<close>

definition set_add :: "string list \<Rightarrow> string \<Rightarrow> string list" where
  \<comment> \<open>\<open>Set.prototype.add\<close> on a set kept in insertion order\<close>
  "set_add s x = (if x \<in> set s then s else s @ [x])"

definition expandItem :: "string list \<Rightarrow> item \<Rightarrow> string list" where
  \<comment> \<open>one step of \<open>selectedItems.forEach\<close> filling \<open>expandedCodes\<close>\<close>
  "expandItem expandedCodes it =
     (case valuemap it of
        ValueMap vm \<Rightarrow> foldl set_add expandedCodes vm
      | _ \<Rightarrow> expandedCodes)"

definition valueMapCodes :: "item \<Rightarrow> string list" where
  \<comment> \<open>the codes an item adds to \<open>expandedCodes\<close>: its value map when the attribute
      parses to an array, none otherwise\<close>
  "valueMapCodes it = (case valuemap it of ValueMap vm \<Rightarrow> vm | _ \<Rightarrow> [])"

definition indexMapOf :: "page \<Rightarrow> string \<Rightarrow> (string \<Rightarrow> int option) option" where
  \<comment> \<open>\<open>tableMetadata?.dimension[dimCode]?.category?.index\<close>\<close>
  "indexMapOf pg dimCode =
     (case tableMetadata pg of
        None \<Rightarrow> None
      | Some m \<Rightarrow> (case meta_dimension m dimCode of None \<Rightarrow> None | Some dm \<Rightarrow> category_index dm))"

definition indexKey :: "(string \<Rightarrow> int option) \<Rightarrow> string \<Rightarrow> int" where
  \<comment> \<open>\<open>indexMap[a] ?? 0\<close>\<close>
  "indexKey indexMap a = (case indexMap a of None \<Rightarrow> 0 | Some n \<Rightarrow> n)"

definition sortByIndex :: "(string \<Rightarrow> int option) \<Rightarrow> string list \<Rightarrow> string list" where
  \<comment> \<open>\<open>values.sort((a, b) => key(a) - key(b))\<close>: the sort is stable\<close>
  "sortByIndex indexMap vs = sort_key (indexKey indexMap) vs"

definition selectedValues :: "page \<Rightarrow> string \<Rightarrow> value_list \<Rightarrow> string list" where
  \<comment> \<open>the array \<open>values\<close> of the specific-mode branch, after the expansion through
      the value maps when a codelist is active\<close>
  "selectedValues pg dimCode vl =
     (let selectedItems = filter selected (items vl)
      in case activeCodelists pg dimCode of
           Some codelistInfo \<Rightarrow> foldl expandItem [] selectedItems
         | None \<Rightarrow> map item_code selectedItems)"

definition specificValues :: "page \<Rightarrow> string \<Rightarrow> value_list \<Rightarrow> string list" where
  \<comment> \<open>the same array after the sort of a time dimension\<close>
  "specificValues pg dimCode vl =
     (let vs = selectedValues pg dimCode vl
      in if isTimeDim dimCode
         then (case indexMapOf pg dimCode of Some indexMap \<Rightarrow> sortByIndex indexMap vs | None \<Rightarrow> vs)
         else vs)"

definition cardValue :: "page \<Rightarrow> variable_card \<Rightarrow> query_value option" where
  \<comment> \<open>what the callback of \<open>getVariableSelection\<close> assigns to
      \<open>selection[dimCode]\<close> for one card; \<open>None\<close> when it returns without assigning\<close>
  "cardValue pg c =
     (case container c of
        None \<Rightarrow> None
      | Some vl \<Rightarrow>
          if mode vl = ''star'' then
            (case activeCodelists pg (dimension c) of
               Some codelistInfo \<Rightarrow> Some (Arr (originalCodes codelistInfo))
             | None \<Rightarrow> Some (Str ''*''))
          else if mode vl = ''top'' then
            Some (Str (''top('' @ orDefault (topNInput c) ''10'' @ '')''))
          else
            (let vs = specificValues pg (dimension c) vl
             in if elimination c \<and> vs = [] then None else Some (Arr vs)))"

definition selectionStep ::
  "page \<Rightarrow> (string \<Rightarrow> query_value option) \<Rightarrow> variable_card \<Rightarrow> (string \<Rightarrow> query_value option)" where
  "selectionStep pg selection c =
     (case cardValue pg c of None \<Rightarrow> selection | Some v \<Rightarrow> selection(dimension c \<mapsto> v))"

definition getVariableSelection :: "page \<Rightarrow> (string \<Rightarrow> query_value option)" where
  "getVariableSelection pg = foldl (selectionStep pg) Map.empty (cards pg)"

definition cardElimination :: "page \<Rightarrow> string \<Rightarrow> bool" where
  \<comment> \<open>the flag of the first card of the dimension; false when there is no card\<close>
  "cardElimination pg dimCode =
     (case find (\<lambda>c. dimension c = dimCode) (cards pg) of
        Some c \<Rightarrow> elimination c | None \<Rightarrow> False)"

fun validateDims :: "page \<Rightarrow> (string \<Rightarrow> query_value option) \<Rightarrow> string list \<Rightarrow> bool" where
  "validateDims pg selection [] = True"
| "validateDims pg selection (dimCode # rest) =
     (if cardElimination pg dimCode then validateDims pg selection rest
      else (case selection dimCode of
              None \<Rightarrow> False
            | Some (Str t) \<Rightarrow> if t = [] then False else validateDims pg selection rest
            | Some (Arr a) \<Rightarrow> if a = [] then False else validateDims pg selection rest))"

definition validateSelection :: "page \<Rightarrow> (string \<Rightarrow> query_value option) \<Rightarrow> bool" where
  "validateSelection pg selection =
     (case tableMetadata pg of None \<Rightarrow> False | Some m \<Rightarrow> validateDims pg selection (meta_id m))"

definition hasSelection :: "query_value option \<Rightarrow> bool" where
  \<comment> \<open>the value passes both tests of the loop: it is not falsy (absent, or the empty
      string) and it is not an empty array\<close>
  "hasSelection v =
     (case v of None \<Rightarrow> False | Some (Str t) \<Rightarrow> t \<noteq> [] | Some (Arr a) \<Rightarrow> a \<noteq> [])"

text \<open>
  Validity in the words of the specification: every dimension whose effective eliminable
  flag is false has a non-empty resolved value, which is the wildcard, a
  \<open>top(n)\<close> with n at least 1, or a non-empty array.
\<close>

definition spec_top_n :: "string \<Rightarrow> int option" where
  "spec_top_n t =
     (if startsWith t ''top('' \<and> t \<noteq> ''top('' \<and> last t = CHR '')''
      then parseInt (butlast (drop 4 t)) else None)"

definition spec_nonempty :: "query_value option \<Rightarrow> bool" where
  "spec_nonempty v =
     (case v of
        None \<Rightarrow> False
      | Some (Arr a) \<Rightarrow> a \<noteq> []
      | Some (Str t) \<Rightarrow> t = ''*'' \<or> (case spec_top_n t of None \<Rightarrow> False | Some n \<Rightarrow> 1 \<le> n))"

definition spec_valid :: "page \<Rightarrow> (string \<Rightarrow> query_value option) \<Rightarrow> bool" where
  "spec_valid pg selection =
     list_all (\<lambda>dimCode. cardElimination pg dimCode \<or> spec_nonempty (selection dimCode))
       (case tableMetadata pg of None \<Rightarrow> [] | Some m \<Rightarrow> meta_id m)"


text \<open>
  Two readings of the specification used below: the query object has explicit codes for a
  dimension when its value is an array, and an emitted array is in chronological order
  when its index keys are ascending.
\<close>

definition spec_emits_codes :: "query_value option \<Rightarrow> bool" where
  "spec_emits_codes v = (case v of Some (Arr a) \<Rightarrow> True | _ \<Rightarrow> False)"



section \<open>Cell count estimate\<close>










section \<open>Codelist dropdown\<close>

























section \<open>Table rotation\<close>

text \<open>
  The state of the table view: the fetched cube, the layout, the error display and
  whether the rotation dialog is open. The dialog has two drop zones; a zone is the list
  of the dimension codes of its chips.
\<close>

record 'v table_view =
  currentData :: "'v jsonstat option"
  tableLayout :: layout
  tv_errorDiv :: bool
  tv_errorDisplay :: "ui_message option"
  dialogOpen :: bool
  renderings :: nat

record overlay =
  rowsZone :: "string list option"
  colsZone :: "string list option"

definition tv_showError :: "ui_message \<Rightarrow> 'v table_view \<Rightarrow> 'v table_view" where
  "tv_showError msg tv = (if tv_errorDiv tv then tv\<lparr>tv_errorDisplay := Some msg\<rparr> else tv)"

definition applyRotation :: "overlay \<Rightarrow> 'v table_view \<Rightarrow> js_error + 'v table_view" where
  "applyRotation ov tv =
     (case rowsZone ov of
        None \<Rightarrow> Inr tv
      | Some newRows \<Rightarrow>
          (case colsZone ov of
             None \<Rightarrow> Inr tv
           | Some newCols \<Rightarrow>
               (case currentData tv of
                  None \<Rightarrow> Inl TypeError
                | Some d \<Rightarrow>
                    if sort (newRows @ newCols) \<noteq> sort (data_id d)
                    then Inr (tv_showError AllDimensionsRequired tv)
                    else if newRows = [] \<and> newCols = []
                    then Inr (tv_showError NoDimension tv)
                    else Inr (tv\<lparr>tableLayout := \<lparr>rows = newRows, columns = newCols\<rparr>,
                                  dialogOpen := False,
                                  renderings := Suc (renderings tv)\<rparr>))))"

text \<open>
  Acceptance in the words of the specification: the proposed lists become the layout.
\<close>

definition spec_accepted :: "string list \<Rightarrow> string list \<Rightarrow> js_error + 'v table_view \<Rightarrow> bool" where
  "spec_accepted newRows newCols r =
     (case r of Inl e \<Rightarrow> False
      | Inr tv \<Rightarrow> tableLayout tv = \<lparr>rows = newRows, columns = newCols\<rparr> \<and> tv_errorDisplay tv = None)"


section \<open>Example pages\<close>

text \<open>
  The cardinality example of the specification: Sex with two categories in star mode,
  Year with five categories in top mode with 2 in the input.
\<close>

definition cardinality_example :: page where
  "cardinality_example =
     \<lparr>tableMetadata = Some
        \<lparr>meta_id = [''Sex'', ''Year''],
         meta_dimension =
           [''Sex'' \<mapsto> \<lparr>category_label = [(''1'', ''Males''), (''2'', ''Females'')],
                        category_index = Some [''1'' \<mapsto> 0, ''2'' \<mapsto> 1],
                        ext_elimination = False\<rparr>,
            ''Year'' \<mapsto> \<lparr>category_label =
                          [(''2019'', ''2019''), (''2020'', ''2020''), (''2021'', ''2021''),
                           (''2022'', ''2022''), (''2023'', ''2023'')],
                         category_index =
                           Some [''2019'' \<mapsto> 0, ''2020'' \<mapsto> 1, ''2021'' \<mapsto> 2,
                                 ''2022'' \<mapsto> 3, ''2023'' \<mapsto> 4],
                         ext_elimination = False\<rparr>]\<rparr>,
      activeCodelists = Map.empty,
      activeCodelistIds = Map.empty,
      dimensionValueOrder = Map.empty,
      cards =
        [\<lparr>dimension = ''Sex'', elimination = False,
          container = Some \<lparr>mode = ''star'', items = []\<rparr>, topNInput = None\<rparr>,
         \<lparr>dimension = ''Year'', elimination = False,
          container = Some \<lparr>mode = ''top'', items = []\<rparr>, topNInput = Some ''2''\<rparr>],
      cellCountEl = True, errorDiv = True, errorDisplay = None\<rparr>"

text \<open>
  A table whose only dimension is the mandatory time dimension, in top mode with 0 typed
  into the input.
\<close>

definition top_zero_example :: page where
  "top_zero_example =
     \<lparr>tableMetadata = Some
        \<lparr>meta_id = [''Tid''],
         meta_dimension =
           [''Tid'' \<mapsto> \<lparr>category_label = [(''2022'', ''2022''), (''2023'', ''2023'')],
                        category_index = Some [''2022'' \<mapsto> 0, ''2023'' \<mapsto> 1],
                        ext_elimination = False\<rparr>]\<rparr>,
      activeCodelists = Map.empty,
      activeCodelistIds = Map.empty,
      dimensionValueOrder = Map.empty,
      cards =
        [\<lparr>dimension = ''Tid'', elimination = False,
          container = Some \<lparr>mode = ''top'', items = []\<rparr>, topNInput = Some ''0''\<rparr>],
      cellCountEl = True, errorDiv = True, errorDisplay = None\<rparr>"



text \<open>
  Age, a mandatory dimension, with an aggregating codelist active that makes it optional:
  two selected groups whose value maps share the base code 02.
\<close>

definition age_codelist :: codelist_info where
  "age_codelist =
     \<lparr>codelistId = ''agg_Alder'', cl_elimination = True, isAggregated = True,
      cl_values =
        [\<lparr>entry_code = ''A'', entry_label = ''Young'', valueMap = [''01'', ''02'']\<rparr>,
         \<lparr>entry_code = ''B'', entry_label = ''Old'', valueMap = [''02'', ''03'']\<rparr>],
      originalCodes = [''01'', ''02'', ''03'']\<rparr>"

definition age_card :: variable_card where
  "age_card =
     \<lparr>dimension = ''Alder'', elimination = True,
      container = Some \<lparr>mode = ''specific'',
        items = [\<lparr>item_code = ''A'', selected = True, valuemap = ValueMap [''01'', ''02'']\<rparr>,
                 \<lparr>item_code = ''B'', selected = True, valuemap = ValueMap [''02'', ''03'']\<rparr>]\<rparr>,
      topNInput = None\<rparr>"

definition age_example :: page where
  "age_example =
     \<lparr>tableMetadata = Some
        \<lparr>meta_id = [''Alder''],
         meta_dimension =
           [''Alder'' \<mapsto> \<lparr>category_label = [(''01'', ''0-19''), (''02'', ''20-39''), (''03'', ''40+'')],
                          category_index = Some [''01'' \<mapsto> 0, ''02'' \<mapsto> 1, ''03'' \<mapsto> 2],
                          ext_elimination = False\<rparr>]\<rparr>,
      activeCodelists = [''Alder'' \<mapsto> age_codelist],
      activeCodelistIds = [''Alder'' \<mapsto> ''agg_Alder''],
      dimensionValueOrder = Map.empty,
      cards = [age_card],
      cellCountEl = True, errorDiv = True, errorDisplay = None\<rparr>"

text \<open>
  A table with a time dimension and an optional Region, each with a codelist active. The
  codelist of the time dimension lists 2021 before 2020. \<open>time_codelist_example\<close>
  has the time dimension in the given mode and nothing selected for Region.
\<close>

definition time_codelist :: codelist_info where
  "time_codelist =
     \<lparr>codelistId = ''vs_Tid'', cl_elimination = False, isAggregated = False,
      cl_values =
        [\<lparr>entry_code = ''2021'', entry_label = ''2021'', valueMap = [''2021'']\<rparr>,
         \<lparr>entry_code = ''2020'', entry_label = ''2020'', valueMap = [''2020'']\<rparr>],
      originalCodes = [''2021'', ''2020'']\<rparr>"

definition region_codelist :: codelist_info where
  "region_codelist =
     \<lparr>codelistId = ''vs_Fylker'', cl_elimination = True, isAggregated = False,
      cl_values = [\<lparr>entry_code = ''03'', entry_label = ''Oslo'', valueMap = [''03'']\<rparr>],
      originalCodes = [''03'']\<rparr>"

definition time_index :: "string \<Rightarrow> int option" where
  "time_index = [''2020'' \<mapsto> 0, ''2021'' \<mapsto> 1]"

definition time_codelist_example :: "string \<Rightarrow> page" where
  "time_codelist_example m =
     \<lparr>tableMetadata = Some
        \<lparr>meta_id = [''Tid'', ''Region''],
         meta_dimension =
           [''Tid'' \<mapsto> \<lparr>category_label = [(''2020'', ''2020''), (''2021'', ''2021'')],
                        category_index = Some time_index,
                        ext_elimination = False\<rparr>,
            ''Region'' \<mapsto> \<lparr>category_label = [(''03'', ''Oslo''), (''46'', ''Vestland'')],
                           category_index = Some [''03'' \<mapsto> 0, ''46'' \<mapsto> 1],
                           ext_elimination = True\<rparr>]\<rparr>,
      activeCodelists = [''Tid'' \<mapsto> time_codelist, ''Region'' \<mapsto> region_codelist],
      activeCodelistIds = [''Tid'' \<mapsto> ''vs_Tid'', ''Region'' \<mapsto> ''vs_Fylker''],
      dimensionValueOrder = Map.empty,
      cards =
        [\<lparr>dimension = ''Tid'', elimination = False,
          container = Some \<lparr>mode = m,
            items = [\<lparr>item_code = ''2021'', selected = False, valuemap = ValueMap [''2021'']\<rparr>,
                     \<lparr>item_code = ''2020'', selected = False, valuemap = ValueMap [''2020'']\<rparr>]\<rparr>,
          topNInput = Some ''5''\<rparr>,
         \<lparr>dimension = ''Region'', elimination = True,
          container = Some \<lparr>mode = ''specific'',
            items = [\<lparr>item_code = ''03'', selected = False, valuemap = ValueMap [''03'']\<rparr>]\<rparr>,
          topNInput = None\<rparr>],
      cellCountEl = True, errorDiv = True, errorDisplay = None\<rparr>"




text \<open>
  A cube without dimensions, with the rotation dialog open and both zones empty; and the
  Sex by Year cube with the dialog open.
\<close>

definition empty_cube_view :: "int table_view" where
  "empty_cube_view =
     \<lparr>currentData = Some \<lparr>data_id = [], data_size = [], data_value = [7]\<rparr>,
      tableLayout = \<lparr>rows = [], columns = []\<rparr>,
      tv_errorDiv = True, tv_errorDisplay = None, dialogOpen = True, renderings = 1\<rparr>"

definition sex_year_view :: "int table_view" where
  "sex_year_view =
     \<lparr>currentData = Some \<lparr>data_id = [''Sex'', ''Year''], data_size = [2, 2],
                           data_value = [10, 20, 30, 40]\<rparr>,
      tableLayout = \<lparr>rows = [''Sex''], columns = [''Year'']\<rparr>,
      tv_errorDiv = True, tv_errorDisplay = None, dialogOpen = True, renderings = 1\<rparr>"


section \<open>Properties of cube addressing\<close>

lemma spec_stride_prod: "spec_stride sizes i = prod_list (drop (Suc i) sizes)"
proof (induction sizes i rule: spec_stride.induct)
  case (1 sizes i)
  show ?case
  proof (cases "Suc i < length sizes")
    case True
    have "drop (Suc i) sizes = sizes ! Suc i # drop (Suc (Suc i)) sizes"
      using True by (simp add: Cons_nth_drop_Suc)
    with True 1 show ?thesis by (simp add: spec_stride.simps [of sizes i] mult.commute)
  next
    case False
    then show ?thesis by (simp add: spec_stride.simps [of sizes i])
  qed
qed

lemma flatIndexLoop_sum:
  "k \<le> length sizes \<Longrightarrow> k \<le> length idx \<Longrightarrow>
   flatIndexLoop (map Some idx) sizes k (Some acc) (prod_list (drop k sizes))
     = Some (acc + (\<Sum>i < k. idx ! i * prod_list (drop (Suc i) sizes)))"
proof (induction k arbitrary: acc)
  case 0
  then show ?case by simp
next
  case (Suc k)
  have d: "drop k sizes = sizes ! k # drop (Suc k) sizes"
    using Suc.prems by (simp add: Cons_nth_drop_Suc)
  have m: "prod_list (drop (Suc k) sizes) * sizes ! k = prod_list (drop k sizes)"
    by (simp add: d mult.commute)
  have g: "js_get (map Some idx) k = Some (idx ! k)"
    using Suc.prems by (simp add: js_get_def)
  show ?case
    using Suc.IH [of "acc + idx ! k * prod_list (drop (Suc k) sizes)"] Suc.prems
    by (simp add: g m js_plus_def js_times_def add.assoc add.commute)
qed

lemma calculateFlatIndex_offset:
  "length sizes \<le> length idx \<Longrightarrow>
   calculateFlatIndex (map Some idx) sizes = Some (spec_offset idx sizes)"
  using flatIndexLoop_sum [of "length sizes" sizes idx 0]
  by (simp add: calculateFlatIndex_def spec_offset_def spec_stride_prod)

lemma indexOf_None_iff: "indexOf xs x = None \<longleftrightarrow> x \<notin> set xs"
  by (induction xs) auto

lemma indexOf_Some_less: "indexOf xs x = Some i \<Longrightarrow> i < length xs"
  by (induction xs arbitrary: i) (auto split: if_splits)

lemma dimIndex_defined:
  assumes "length (indices rowHeader) = length (rows lay)"
      and "length (indices colHeader) = length (columns lay)"
  shows "\<exists>n. dimIndex lay rowHeader colHeader dimCode = Some n"
  using assms
  by (auto simp: dimIndex_def js_read_def split: option.splits dest: indexOf_Some_less)

lemma dimIndex_absent:
  "dimCode \<notin> set (rows lay) \<Longrightarrow> dimCode \<notin> set (columns lay) \<Longrightarrow>
   dimIndex lay rowHeader colHeader dimCode = Some 0"
  by (simp add: dimIndex_def indexOf_None_iff [THEN iffD2])

lemma fullIndices_defined:
  assumes "length (indices rowHeader) = length (rows lay)"
      and "length (indices colHeader) = length (columns lay)"
  shows "fullIndices d lay rowHeader colHeader
         = map Some (map (\<lambda>c. the (dimIndex lay rowHeader colHeader c)) (data_id d))"
proof -
  have "dimIndex lay rowHeader colHeader c = Some (the (dimIndex lay rowHeader colHeader c))" for c
    using dimIndex_defined [OF assms, of c] by auto
  then show ?thesis
    by (simp add: fullIndices_def)
qed


text \<open>
  C1. The flat offset computed by \<open>calculateFlatIndex\<close> for an index vector as long
  as the size vector is the sum of index times stride, where the stride of the last
  dimension is 1 and every earlier stride is the next stride times the next size. For
  the cube with dimension order Sex, Year, sizes 2, 2 and values 10, 20, 30, 40, laid
  out with Sex in the rows and Year in the columns, \<open>getDataValue\<close> at Sex index 1
  and Year index 1 reads position 1 * 2 + 1 = 3, which holds 40.
\<close>

theorem C1_flat_index_stride_sum:
  assumes "length idx = length sizes"
  shows "calculateFlatIndex (map Some idx) sizes
           = Some (\<Sum>i < length sizes. idx ! i * spec_stride sizes i)
       \<and> (sizes \<noteq> [] \<longrightarrow> spec_stride sizes (length sizes - 1) = 1)
       \<and> (\<forall>i. Suc i < length sizes \<longrightarrow>
             spec_stride sizes i = spec_stride sizes (Suc i) * sizes ! Suc i)
       \<and> calculateFlatIndex [Some 1, Some 1] [2, 2] = Some (1 * 2 + 1)
       \<and> getDataValue
            (Some \<lparr>data_id = [''Sex'', ''Year''], data_size = [2, 2],
                   data_value = [10, 20, 30, 40 :: int]\<rparr>)
            \<lparr>rows = [''Sex''], columns = [''Year'']\<rparr>
            \<lparr>codes = [''1''], indices = [1]\<rparr>
            \<lparr>codes = [''1''], indices = [1]\<rparr> = Elem 40"
proof -
  have a: "calculateFlatIndex (map Some idx) sizes
             = Some (\<Sum>i < length sizes. idx ! i * spec_stride sizes i)"
    using calculateFlatIndex_offset [of sizes idx] assms by (simp add: spec_offset_def)
  have b: "sizes \<noteq> [] \<longrightarrow> spec_stride sizes (length sizes - 1) = 1"
    by (simp add: spec_stride_prod)
  have c: "\<forall>i. Suc i < length sizes \<longrightarrow>
             spec_stride sizes i = spec_stride sizes (Suc i) * sizes ! Suc i"
    by (simp add: spec_stride.simps [of sizes])
  have e: "calculateFlatIndex [Some 1, Some 1] [2, 2] = Some (1 * 2 + 1)"
    by (simp add: calculateFlatIndex_def numeral_2_eq_2 js_get_def js_plus_def js_times_def)
  have f: "getDataValue
            (Some \<lparr>data_id = [''Sex'', ''Year''], data_size = [2, 2],
                   data_value = [10, 20, 30, 40 :: int]\<rparr>)
            \<lparr>rows = [''Sex''], columns = [''Year'']\<rparr>
            \<lparr>codes = [''1''], indices = [1]\<rparr>
            \<lparr>codes = [''1''], indices = [1]\<rparr> = Elem 40"
    by (simp add: getDataValue_def fullIndices_def dimIndex_def js_read_def
        calculateFlatIndex_def numeral_2_eq_2 js_get_def js_plus_def js_times_def)
  from a b c e f show ?thesis by blast
qed

theorem C1_flat_index_stride_sum_witness:
  "length [1, 1 :: nat] = length [2, 2 :: nat]
   \<and> calculateFlatIndex (map Some [1, 1]) [2, 2] = Some 3
   \<and> spec_stride [2, 2] 1 = 1 \<and> spec_stride [2, 2] 0 = 2"
  using C1_flat_index_stride_sum [of "[1, 1]" "[2, 2]"]
  by (simp add: spec_stride.simps [of _ 0] spec_stride.simps [of _ "Suc 0"] lessThan_Suc numeral_2_eq_2)


text \<open>
  C2. For sizes 2, 3 the six index vectors (i, j) with i below 2 and j below 3 are sent
  by \<open>calculateFlatIndex\<close> to the six offsets 0 to 5, each exactly once: the map is
  a bijection between the index vectors and the positions of the value array.
\<close>

theorem C2_flat_index_bijective_2_3:
  "map (\<lambda>(i, j). calculateFlatIndex [Some i, Some j] [2, 3]) (List.product [0..<2] [0..<3])
     = map Some [0..<6]
   \<and> bij_betw (\<lambda>(i, j). calculateFlatIndex [Some i, Some j] [2, 3])
        ({0..<2} \<times> {0..<3}) (Some ` {0..<6})"
proof -
  let ?f = "\<lambda>(i, j). calculateFlatIndex [Some i, Some j] [2, 3]"
  have l: "map ?f (List.product [0..<2] [0..<3]) = map Some [0..<6]"
    by (simp add: calculateFlatIndex_def numeral_2_eq_2 js_get_def js_plus_def js_times_def
        upt_rec [of _ "numeral _"] upt_rec [of _ "Suc _"])
  have "distinct (map ?f (List.product [0..<2] [0..<3]))"
    unfolding l by (simp add: distinct_map)
  then have i: "inj_on ?f (set (List.product [0..<2] [0..<3]))"
    by (simp add: distinct_map)
  have "?f ` set (List.product [0..<2] [0..<3]) = set (map Some [0..<6])"
    using l by (metis set_map)
  then have s: "?f ` set (List.product [0..<2] [0..<3]) = Some ` {0..<6}"
    by simp
  have p: "set (List.product [0..<2] [0..<3]) = {0..<2} \<times> {0..<3::nat}"
    by simp
  from i s show ?thesis
    unfolding p bij_betw_def using l by blast
qed


text \<open>
  C10. \<open>getDataValue\<close> handles any layout. Whenever the headers belong to the layout
  (one index per row dimension and per column dimension) and the cube has no more sizes
  than dimensions, the index vector has one defined entry per dimension of the cube, the
  entry of a dimension that is in neither the rows nor the columns is 0, the flat offset
  is a number, and the result is the read of the value array at that offset. The
  embedding has no failure branch: the function has none for these argument types.
\<close>

theorem C10_lookup_total_missing_dimension_zero:
  assumes "length (data_size d) \<le> length (data_id d)"
      and "length (indices rowHeader) = length (rows lay)"
      and "length (indices colHeader) = length (columns lay)"
  shows "length (fullIndices d lay rowHeader colHeader) = length (data_id d)
       \<and> (\<forall>k < length (data_id d).
             data_id d ! k \<notin> set (rows lay) \<and> data_id d ! k \<notin> set (columns lay) \<longrightarrow>
             fullIndices d lay rowHeader colHeader ! k = Some 0)
       \<and> (\<exists>flatIndex.
             calculateFlatIndex (fullIndices d lay rowHeader colHeader) (data_size d)
               = Some flatIndex
             \<and> getDataValue (Some d) lay rowHeader colHeader
               = (case js_read (data_value d) flatIndex of None \<Rightarrow> Undef | Some v \<Rightarrow> Elem v))"
proof -
  have a: "length (fullIndices d lay rowHeader colHeader) = length (data_id d)"
    by (simp add: fullIndices_def)
  have b: "\<forall>k < length (data_id d).
             data_id d ! k \<notin> set (rows lay) \<and> data_id d ! k \<notin> set (columns lay) \<longrightarrow>
             fullIndices d lay rowHeader colHeader ! k = Some 0"
    by (simp add: fullIndices_def dimIndex_absent)
  let ?idx = "map (\<lambda>c. the (dimIndex lay rowHeader colHeader c)) (data_id d)"
  have f: "fullIndices d lay rowHeader colHeader = map Some ?idx"
    by (rule fullIndices_defined [OF assms(2,3)])
  have "length (data_size d) \<le> length ?idx"
    using assms(1) by simp
  then have c: "calculateFlatIndex (fullIndices d lay rowHeader colHeader) (data_size d)
                  = Some (spec_offset ?idx (data_size d))"
    unfolding f by (rule calculateFlatIndex_offset)
  then have "getDataValue (Some d) lay rowHeader colHeader
               = (case js_read (data_value d) (spec_offset ?idx (data_size d)) of
                    None \<Rightarrow> Undef | Some v \<Rightarrow> Elem v)"
    by (simp add: getDataValue_def)
  with a b c show ?thesis by blast
qed

theorem C10_lookup_total_missing_dimension_zero_witness:
  "fullIndices \<lparr>data_id = [''Sex'', ''Year''], data_size = [2, 2],
                data_value = [10, 20, 30, 40 :: int]\<rparr>
     \<lparr>rows = [''Sex''], columns = []\<rparr>
     \<lparr>codes = [''1''], indices = [1]\<rparr> \<lparr>codes = [], indices = []\<rparr> = [Some 1, Some 0]
   \<and> getDataValue (Some \<lparr>data_id = [''Sex'', ''Year''], data_size = [2, 2],
                data_value = [10, 20, 30, 40 :: int]\<rparr>)
     \<lparr>rows = [''Sex''], columns = []\<rparr>
     \<lparr>codes = [''1''], indices = [1]\<rparr> \<lparr>codes = [], indices = []\<rparr> = Elem 30"
  using C10_lookup_total_missing_dimension_zero
    [of "\<lparr>data_id = [''Sex'', ''Year''], data_size = [2, 2], data_value = [10, 20, 30, 40 :: int]\<rparr>"
        "\<lparr>codes = [''1''], indices = [1]\<rparr>" "\<lparr>rows = [''Sex''], columns = []\<rparr>"
        "\<lparr>codes = [], indices = []\<rparr>"]
  by (simp add: getDataValue_def fullIndices_def dimIndex_def js_read_def
      calculateFlatIndex_def numeral_2_eq_2 js_get_def js_plus_def js_times_def)

section \<open>Properties of the cell count estimate\<close>





section \<open>Properties of validation\<close>

lemmas selection_eval =
  getVariableSelection_def selectionStep_def cardValue_def specificValues_def
  selectedValues_def orDefault_def

lemmas validate_eval =
  validateSelection_def hasSelection_def

lemmas spec_valid_eval =
  spec_valid_def spec_nonempty_def spec_top_n_def cardElimination_def parseInt_def
  isWhiteSpace_def isDigit_def digitValue_def digitsValue_def

lemma validateDims_iff:
  "validateDims pg selection ds
   \<longleftrightarrow> (\<forall>dimCode \<in> set ds. \<not> cardElimination pg dimCode \<longrightarrow> hasSelection (selection dimCode))"
  by (induction ds) (auto simp: hasSelection_def split: option.splits query_value.splits)

lemma spec_top_n_nonempty: "spec_top_n t = Some n \<Longrightarrow> t \<noteq> []"
  by (auto simp: spec_top_n_def)

lemma spec_nonempty_hasSelection: "spec_nonempty v \<Longrightarrow> hasSelection v"
  by (auto simp: spec_nonempty_def hasSelection_def
      split: option.splits query_value.splits dest: spec_top_n_nonempty)

text \<open>
  C4, as the code has it. \<open>validateSelection\<close> returns true exactly when the
  metadata is loaded and every dimension of its \<open>id\<close> list whose card is not
  flagged as eliminable has a value that is a non-empty string or a non-empty array.
  The content of the string is not read, so every \<open>top(...)\<close> string counts,
  also \<open>top(0)\<close>. With the metadata loaded, a selection that is valid in the words
  of the specification is accepted.
\<close>

theorem C4_validate_iff_mandatory_present:
  "(validateSelection pg selection
      \<longleftrightarrow> (\<exists>m. tableMetadata pg = Some m
              \<and> (\<forall>dimCode \<in> set (meta_id m).
                    \<not> cardElimination pg dimCode \<longrightarrow> hasSelection (selection dimCode))))
   \<and> (tableMetadata pg \<noteq> None \<and> spec_valid pg selection \<longrightarrow> validateSelection pg selection)"
proof -
  have a: "validateSelection pg selection
      \<longleftrightarrow> (\<exists>m. tableMetadata pg = Some m
              \<and> (\<forall>dimCode \<in> set (meta_id m).
                    \<not> cardElimination pg dimCode \<longrightarrow> hasSelection (selection dimCode)))"
    by (cases "tableMetadata pg") (simp_all add: validateSelection_def validateDims_iff)
  have b: "tableMetadata pg \<noteq> None \<and> spec_valid pg selection \<longrightarrow> validateSelection pg selection"
    unfolding a
    by (auto simp: spec_valid_def list_all_iff intro!: spec_nonempty_hasSelection)
  from a b show ?thesis by blast
qed

theorem C4_validate_iff_mandatory_present_witness:
  "tableMetadata cardinality_example \<noteq> None
   \<and> \<not> cardElimination cardinality_example ''Year''
   \<and> getVariableSelection cardinality_example ''Sex'' = Some (Str ''*'')
   \<and> getVariableSelection cardinality_example ''Year'' = Some (Str ''top(2)'')
   \<and> spec_valid cardinality_example (getVariableSelection cardinality_example)
   \<and> validateSelection cardinality_example (getVariableSelection cardinality_example)"
  using C4_validate_iff_mandatory_present
    [of cardinality_example "getVariableSelection cardinality_example"]
  by (simp add: cardinality_example_def selection_eval spec_valid_eval hasSelection_def)

text \<open>
  C4 as stated fails. With 0 in the top-n input of a mandatory dimension the query value is
  \<open>top(0)\<close>: \<open>validateSelection\<close> accepts the selection, while in the words
  of the specification the value is empty and the selection invalid.
\<close>

theorem C4_top_zero_counterexample:
  "getVariableSelection top_zero_example ''Tid'' = Some (Str ''top(0)'')
   \<and> \<not> cardElimination top_zero_example ''Tid''
   \<and> validateSelection top_zero_example (getVariableSelection top_zero_example)
   \<and> \<not> spec_valid top_zero_example (getVariableSelection top_zero_example)"
  by (simp add: top_zero_example_def selection_eval validate_eval spec_valid_eval)


section \<open>Properties of query construction\<close>

lemma selectionStep_other:
  "dimension c \<noteq> d \<Longrightarrow> selectionStep pg selection c d = selection d"
  by (simp add: selectionStep_def split: option.splits)


lemma foldl_selectionStep_absent:
  "d \<notin> dimension ` set cs \<Longrightarrow> foldl (selectionStep pg) selection cs d = selection d"
  by (induction cs arbitrary: selection) (auto simp: selectionStep_other)

lemma foldl_selectionStep_card:
  "distinct (map dimension cs) \<Longrightarrow> c \<in> set cs \<Longrightarrow>
   foldl (selectionStep pg) selection cs (dimension c)
     = (case cardValue pg c of None \<Rightarrow> selection (dimension c) | Some v \<Rightarrow> Some v)"
proof (induction cs arbitrary: selection)
  case Nil
  then show ?case by simp
next
  case (Cons a cs)
  show ?case
  proof (cases "c = a")
    case True
    have "dimension a \<notin> dimension ` set cs"
      using Cons.prems(1) by simp
    then have "foldl (selectionStep pg) (selectionStep pg selection a) cs (dimension a)
                 = selectionStep pg selection a (dimension a)"
      by (rule foldl_selectionStep_absent)
    moreover have "selectionStep pg selection a (dimension a)
                 = (case cardValue pg a of None \<Rightarrow> selection (dimension a) | Some v \<Rightarrow> Some v)"
      by (simp add: selectionStep_def split: option.splits)
    ultimately show ?thesis
      using True by (simp split: option.splits)
  next
    case False
    then have in_cs: "c \<in> set cs"
      using Cons.prems(2) by simp
    then have "dimension c \<in> dimension ` set cs"
      by (rule imageI)
    then have "dimension c \<noteq> dimension a"
      using Cons.prems(1) by auto
    then have "selectionStep pg selection a (dimension c) = selection (dimension c)"
      by (simp add: selectionStep_other)
    then show ?thesis
      using Cons.IH [OF _ in_cs, of "selectionStep pg selection a"] Cons.prems(1)
      by (simp split: option.splits)
  qed
qed

lemma getVariableSelection_card:
  "distinct (map dimension (cards pg)) \<Longrightarrow> c \<in> set (cards pg) \<Longrightarrow>
   getVariableSelection pg (dimension c) = cardValue pg c"
  by (simp add: getVariableSelection_def foldl_selectionStep_card split: option.splits)



lemma distinct_foldl_set_add: "distinct acc \<Longrightarrow> distinct (foldl set_add acc xs)"
  by (induction xs arbitrary: acc) (simp_all add: set_add_def)

lemma set_foldl_set_add: "set (foldl set_add acc xs) = set acc \<union> set xs"
  by (induction xs arbitrary: acc) (auto simp: set_add_def)

lemma expandItem_valueMapCodes: "expandItem acc it = foldl set_add acc (valueMapCodes it)"
  by (simp add: expandItem_def valueMapCodes_def split: valuemap_attr.splits)

lemma distinct_foldl_expandItem: "distinct acc \<Longrightarrow> distinct (foldl expandItem acc its)"
  by (induction its arbitrary: acc) (simp_all add: expandItem_valueMapCodes distinct_foldl_set_add)

lemma set_foldl_expandItem:
  "set (foldl expandItem acc its) = set acc \<union> (\<Union>it \<in> set its. set (valueMapCodes it))"
  by (induction its arbitrary: acc) (auto simp: expandItem_valueMapCodes set_foldl_set_add)

lemma foldl_expandItem_filter_type:
  "\<forall>it \<in> set its. valuemap it = ValueMap [item_code it] \<Longrightarrow>
   distinct (acc @ map item_code its) \<Longrightarrow>
   foldl expandItem acc its = acc @ map item_code its"
proof (induction its arbitrary: acc)
  case Nil
  then show ?case by simp
next
  case (Cons it its)
  have step: "expandItem acc it = acc @ [item_code it]"
    using Cons.prems by (simp add: expandItem_def set_add_def)
  have "distinct ((acc @ [item_code it]) @ map item_code its)"
    using Cons.prems(2) by simp
  then have "foldl expandItem (acc @ [item_code it]) its = (acc @ [item_code it]) @ map item_code its"
    using Cons.prems(1) by (intro Cons.IH) simp_all
  then show ?case by (simp add: step)
qed

lemma specificValues_set: "set (specificValues pg d vl) = set (selectedValues pg d vl)"
  by (simp add: specificValues_def sortByIndex_def Let_def split: option.splits)

lemma specificValues_distinct:
  "distinct (specificValues pg d vl) = distinct (selectedValues pg d vl)"
  by (simp add: specificValues_def sortByIndex_def Let_def split: option.splits)

lemma specificValues_not_time: "\<not> isTimeDim d \<Longrightarrow> specificValues pg d vl = selectedValues pg d vl"
  by (simp add: specificValues_def)

lemma specificValues_Nil: "specificValues pg d vl = [] \<longleftrightarrow> selectedValues pg d vl = []"
  using specificValues_set [of pg d vl] by (metis set_empty)

text \<open>
  C6, as the code has it. Let a codelist be active for the dimension of a card (one card
  per dimension). In star mode the value of the dimension is exactly the array of the
  codelist's original codes. In top mode it is the string \<open>top(...)\<close>, codelist
  or not. In specific mode the expanded array has no duplicates and holds exactly the
  codes of the value maps of the selected items; the key is left out when the card is
  eliminable and the array is empty, otherwise the value is that array, in the order of
  first occurrence unless the dimension is a time dimension (then it is re-sorted). When
  every selected item maps to its own code, the array holds exactly the selected codes,
  in order when they are distinct.
\<close>

theorem C6_codelist_values_by_mode:
  assumes "distinct (map dimension (cards pg))"
      and "c \<in> set (cards pg)"
      and "container c = Some vl"
      and "activeCodelists pg (dimension c) = Some codelistInfo"
  shows "(mode vl = ''star'' \<longrightarrow>
            getVariableSelection pg (dimension c) = Some (Arr (originalCodes codelistInfo)))
       \<and> (mode vl \<noteq> ''star'' \<and> mode vl = ''top'' \<longrightarrow>
            getVariableSelection pg (dimension c)
              = Some (Str (''top('' @ orDefault (topNInput c) ''10'' @ '')'')))
       \<and> (mode vl \<noteq> ''star'' \<and> mode vl \<noteq> ''top'' \<longrightarrow>
            selectedValues pg (dimension c) vl = foldl expandItem [] (filter selected (items vl))
            \<and> distinct (selectedValues pg (dimension c) vl)
            \<and> set (selectedValues pg (dimension c) vl)
                = (\<Union>it \<in> set (filter selected (items vl)). set (valueMapCodes it))
            \<and> (if elimination c \<and> selectedValues pg (dimension c) vl = []
                then getVariableSelection pg (dimension c) = None
                else getVariableSelection pg (dimension c)
                       = Some (Arr (specificValues pg (dimension c) vl)))
            \<and> distinct (specificValues pg (dimension c) vl)
            \<and> set (specificValues pg (dimension c) vl) = set (selectedValues pg (dimension c) vl)
            \<and> (\<not> isTimeDim (dimension c) \<longrightarrow>
                  specificValues pg (dimension c) vl = selectedValues pg (dimension c) vl)
            \<and> ((\<forall>it \<in> set (filter selected (items vl)). valuemap it = ValueMap [item_code it]) \<longrightarrow>
                  set (selectedValues pg (dimension c) vl)
                    = item_code ` set (filter selected (items vl))
                  \<and> (distinct (map item_code (filter selected (items vl))) \<longrightarrow>
                       selectedValues pg (dimension c) vl
                         = map item_code (filter selected (items vl)))))"
proof -
  let ?d = "dimension c"
  let ?sel = "filter selected (items vl)"
  have g: "getVariableSelection pg ?d = cardValue pg c"
    using assms(1,2) by (rule getVariableSelection_card)
  have star: "mode vl = ''star'' \<longrightarrow>
            getVariableSelection pg ?d = Some (Arr (originalCodes codelistInfo))"
    by (simp add: g cardValue_def assms(3,4))
  have top: "mode vl \<noteq> ''star'' \<and> mode vl = ''top'' \<longrightarrow>
            getVariableSelection pg ?d = Some (Str (''top('' @ orDefault (topNInput c) ''10'' @ '')''))"
    by (simp add: g cardValue_def assms(3))
  have u: "selectedValues pg ?d vl = foldl expandItem [] ?sel"
    by (simp add: selectedValues_def assms(4))
  have du: "distinct (selectedValues pg ?d vl)"
    unfolding u by (rule distinct_foldl_expandItem) simp
  have su: "set (selectedValues pg ?d vl) = (\<Union>it \<in> set ?sel. set (valueMapCodes it))"
    unfolding u by (simp add: set_foldl_expandItem)
  have emit: "mode vl \<noteq> ''star'' \<and> mode vl \<noteq> ''top'' \<longrightarrow>
         (if elimination c \<and> selectedValues pg ?d vl = []
          then getVariableSelection pg ?d = None
          else getVariableSelection pg ?d = Some (Arr (specificValues pg ?d vl)))"
    by (simp add: g cardValue_def assms(3) specificValues_Nil)
  have ds: "distinct (specificValues pg ?d vl)"
    by (simp add: specificValues_distinct du)
  have ss: "set (specificValues pg ?d vl) = set (selectedValues pg ?d vl)"
    by (rule specificValues_set)
  have nt: "\<not> isTimeDim ?d \<longrightarrow> specificValues pg ?d vl = selectedValues pg ?d vl"
    by (simp add: specificValues_not_time)
  have ft: "(\<forall>it \<in> set ?sel. valuemap it = ValueMap [item_code it]) \<longrightarrow>
              set (selectedValues pg ?d vl) = item_code ` set ?sel
              \<and> (distinct (map item_code ?sel) \<longrightarrow> selectedValues pg ?d vl = map item_code ?sel)"
  proof (intro impI conjI)
    assume a: "\<forall>it \<in> set ?sel. valuemap it = ValueMap [item_code it]"
    then have "\<forall>it \<in> set ?sel. set (valueMapCodes it) = {item_code it}"
      by (simp add: valueMapCodes_def)
    then show "set (selectedValues pg ?d vl) = item_code ` set ?sel"
      unfolding su by auto
    assume "distinct (map item_code ?sel)"
    then show "selectedValues pg ?d vl = map item_code ?sel"
      unfolding u using foldl_expandItem_filter_type [OF a, of "[]"] by simp
  qed
  from star top u du su emit ds ss nt ft show ?thesis
    by blast
qed

theorem C6_codelist_values_by_mode_witness:
  "distinct (map dimension (cards age_example))
   \<and> age_card \<in> set (cards age_example)
   \<and> activeCodelists age_example (dimension age_card) = Some age_codelist
   \<and> mode (the (container age_card)) = ''specific''
   \<and> getVariableSelection age_example ''Alder'' = Some (Arr [''01'', ''02'', ''03''])"
  using C6_codelist_values_by_mode
    [of age_example age_card "the (container age_card)" age_codelist]
  by (simp add: age_example_def age_card_def specificValues_def selectedValues_def
      expandItem_def set_add_def isTimeDim_def toLowerCase_def lowerChar_def)

text \<open>
  C6 as stated fails. With a codelist active, the time dimension in top mode still gets the string
  \<open>top(5)\<close>, and the optional Region with nothing selected gets no key at all:
  in neither case does the query object hold explicit codes for the dimension.
\<close>

theorem C6_codelist_top_and_empty_counterexample:
  "activeCodelists (time_codelist_example ''top'') ''Tid'' = Some time_codelist
   \<and> getVariableSelection (time_codelist_example ''top'') ''Tid'' = Some (Str ''top(5)'')
   \<and> \<not> spec_emits_codes (getVariableSelection (time_codelist_example ''top'') ''Tid'')
   \<and> activeCodelists (time_codelist_example ''top'') ''Region'' = Some region_codelist
   \<and> getVariableSelection (time_codelist_example ''top'') ''Region'' = None
   \<and> \<not> spec_emits_codes (getVariableSelection (time_codelist_example ''top'') ''Region'')"
  by (simp add: time_codelist_example_def selection_eval spec_emits_codes_def expandItem_def
      isTimeDim_def toLowerCase_def lowerChar_def)









section \<open>Properties of table rotation\<close>

lemma sort_eq_iff_mset: "sort xs = sort ys \<longleftrightarrow> mset xs = mset ys"
proof
  assume "sort xs = sort ys"
  then have "mset (sort xs) = mset (sort ys)" by simp
  then show "mset xs = mset ys" by simp
next
  assume "mset xs = mset ys"
  then have "mset (sort ys) = mset xs" by simp
  then show "sort xs = sort ys"
    by (rule properties_for_sort) simp
qed

lemma tv_showError_keeps:
  "tableLayout (tv_showError msg tv) = tableLayout tv
   \<and> currentData (tv_showError msg tv) = currentData tv
   \<and> dialogOpen (tv_showError msg tv) = dialogOpen tv"
  by (simp add: tv_showError_def)

text \<open>
  C9, as the code has it. With both zones of the dialog present and a cube loaded,
  \<open>applyRotation\<close> rejects a proposal whose dimension codes, rows and columns
  together, are not the cube's dimensions as a multiset: it shows the message and leaves
  layout, data and dialog as they were. A proposal that is exactly the cube's dimensions
  becomes the new layout, provided the cube has a dimension; for a cube without dimensions
  the proposal of two empty lists is rejected with the second message.
\<close>

theorem C9_rotation_accepts_exact_partitions:
  assumes "rowsZone ov = Some newRows" and "colsZone ov = Some newCols"
      and "currentData tv = Some d"
  shows "(mset (newRows @ newCols) \<noteq> mset (data_id d) \<longrightarrow>
            applyRotation ov tv = Inr (tv_showError AllDimensionsRequired tv))
       \<and> (mset (newRows @ newCols) = mset (data_id d) \<and> data_id d \<noteq> [] \<longrightarrow>
            applyRotation ov tv
              = Inr (tv\<lparr>tableLayout := \<lparr>rows = newRows, columns = newCols\<rparr>,
                        dialogOpen := False, renderings := Suc (renderings tv)\<rparr>))
       \<and> (mset (newRows @ newCols) = mset (data_id d) \<and> data_id d = [] \<longrightarrow>
            applyRotation ov tv = Inr (tv_showError NoDimension tv))
       \<and> tableLayout (tv_showError msg tv) = tableLayout tv
       \<and> currentData (tv_showError msg tv) = currentData tv
       \<and> dialogOpen (tv_showError msg tv) = dialogOpen tv
       \<and> (tv_errorDiv tv \<longrightarrow> tv_errorDisplay (tv_showError msg tv) = Some msg)"
proof -
  have a: "mset (newRows @ newCols) \<noteq> mset (data_id d) \<longrightarrow>
            applyRotation ov tv = Inr (tv_showError AllDimensionsRequired tv)"
    by (simp add: applyRotation_def assms sort_eq_iff_mset)
  have e: "newRows = [] \<and> newCols = [] \<longleftrightarrow> data_id d = []"
    if "mset (newRows @ newCols) = mset (data_id d)"
    using that by (metis append_is_Nil_conv mset_zero_iff)
  have b: "mset (newRows @ newCols) = mset (data_id d) \<and> data_id d \<noteq> [] \<longrightarrow>
            applyRotation ov tv
              = Inr (tv\<lparr>tableLayout := \<lparr>rows = newRows, columns = newCols\<rparr>,
                        dialogOpen := False, renderings := Suc (renderings tv)\<rparr>)"
  proof
    assume h: "mset (newRows @ newCols) = mset (data_id d) \<and> data_id d \<noteq> []"
    then have s: "sort (newRows @ newCols) = sort (data_id d)"
      by (simp only: sort_eq_iff_mset)
    have "\<not> (newRows = [] \<and> newCols = [])"
      using h e by blast
    then show "applyRotation ov tv
              = Inr (tv\<lparr>tableLayout := \<lparr>rows = newRows, columns = newCols\<rparr>,
                        dialogOpen := False, renderings := Suc (renderings tv)\<rparr>)"
      using s by (auto simp: applyRotation_def assms)
  qed
  have c: "mset (newRows @ newCols) = mset (data_id d) \<and> data_id d = [] \<longrightarrow>
            applyRotation ov tv = Inr (tv_showError NoDimension tv)"
  proof
    assume h: "mset (newRows @ newCols) = mset (data_id d) \<and> data_id d = []"
    then have "newRows = [] \<and> newCols = []"
      using e by blast
    then show "applyRotation ov tv = Inr (tv_showError NoDimension tv)"
      using h by (simp add: applyRotation_def assms)
  qed
  have k: "tableLayout (tv_showError msg tv) = tableLayout tv
       \<and> currentData (tv_showError msg tv) = currentData tv
       \<and> dialogOpen (tv_showError msg tv) = dialogOpen tv"
    by (rule tv_showError_keeps)
  have m: "tv_errorDiv tv \<longrightarrow> tv_errorDisplay (tv_showError msg tv) = Some msg"
    by (simp add: tv_showError_def)
  show ?thesis
    using a b c k m by (intro conjI) simp_all
qed

theorem C9_rotation_accepts_exact_partitions_witness:
  "currentData sex_year_view
     = Some \<lparr>data_id = [''Sex'', ''Year''], data_size = [2, 2], data_value = [10, 20, 30, 40]\<rparr>
   \<and> mset ([''Year''] @ [''Sex'']) = mset [''Sex'', ''Year'']
   \<and> applyRotation \<lparr>rowsZone = Some [''Year''], colsZone = Some [''Sex'']\<rparr> sex_year_view
       = Inr (sex_year_view\<lparr>tableLayout := \<lparr>rows = [''Year''], columns = [''Sex'']\<rparr>,
                dialogOpen := False, renderings := 2\<rparr>)
   \<and> mset ([''Sex''] @ []) \<noteq> mset [''Sex'', ''Year'']
   \<and> applyRotation \<lparr>rowsZone = Some [''Sex''], colsZone = Some []\<rparr> sex_year_view
       = Inr (sex_year_view\<lparr>tv_errorDisplay := Some AllDimensionsRequired\<rparr>)"
  using C9_rotation_accepts_exact_partitions
      [of "\<lparr>rowsZone = Some [''Year''], colsZone = Some [''Sex'']\<rparr>" "[''Year'']" "[''Sex'']"
          sex_year_view
          "\<lparr>data_id = [''Sex'', ''Year''], data_size = [2, 2], data_value = [10, 20, 30, 40]\<rparr>"]
    C9_rotation_accepts_exact_partitions
      [of "\<lparr>rowsZone = Some [''Sex''], colsZone = Some []\<rparr>" "[''Sex'']" "[]"
          sex_year_view
          "\<lparr>data_id = [''Sex'', ''Year''], data_size = [2, 2], data_value = [10, 20, 30, 40]\<rparr>"]
  by (simp add: sex_year_view_def tv_showError_def)

text \<open>
  C9 as stated fails. For the cube without dimensions the two empty lists are exactly its dimensions, and the
  proposal is rejected: the message is shown and the dialog stays open.
\<close>

theorem C9_empty_cube_counterexample:
  "mset ([] @ []) = mset (data_id (the (currentData empty_cube_view)))
   \<and> applyRotation \<lparr>rowsZone = Some [], colsZone = Some []\<rparr> empty_cube_view
       = Inr (empty_cube_view\<lparr>tv_errorDisplay := Some NoDimension\<rparr>)
   \<and> \<not> spec_accepted [] [] (applyRotation \<lparr>rowsZone = Some [], colsZone = Some []\<rparr> empty_cube_view)"
  by (simp add: empty_cube_view_def applyRotation_def tv_showError_def spec_accepted_def)

section \<open>Properties of the codelist dropdown\<close>








end
